theory Spec2Isabelle
  imports Main "HOL-Library.Word"
begin

unbundle bit_operations_syntax

section \<open>Values of the inference handler (src/inference.py)\<close>

text \<open>
  A Python \<open>str\<close> is the list of its Unicode code points. A literal of the source such
  as \<^verbatim>\<open>'application/json'\<close> is written \<open>str_lit ''application/json''\<close>.
\<close>

type_synonym pystr = "nat list"

definition str_lit :: "string \<Rightarrow> pystr" where
  "str_lit s = map of_char s"

text \<open>
  Exceptions are values. \<open>ValueError\<close> carries its message, \<open>KeyError\<close> the missing key.
  \<open>JSONDecodeError\<close> is what \<^verbatim>\<open>json.loads\<close> raises (with its \<^verbatim>\<open>msg\<close>), \<open>StopIteration\<close> what
  the decoder's scanner raises where no value starts, \<open>LibraryError\<close> anything raised inside
  the embedding or vector-store library.
\<close>

datatype py_error =
    ValueError pystr
  | JSONDecodeError pystr
  | KeyError pystr
  | TypeError
  | IndexError
  | StopIteration
  | LibraryError pystr

text \<open>
  What \<^verbatim>\<open>json.loads\<close> can return. A float is carried as its binary64 bit pattern; the
  handler never computes with it. Objects keep their members in document order.
\<close>

datatype json =
    JNull
  | JBool bool
  | JInt int
  | JFloat "64 word"
  | JStr pystr
  | JList "json list"
  | JDict "(pystr \<times> json) list"

text \<open>
  A result record of the similarity search (langchain's \<^verbatim>\<open>Document\<close>): the passage text
  and its metadata; the record's extension stands for any further field.
\<close>

record document =
  page_content :: pystr
  metadata :: "(pystr \<times> json) list"

text \<open>
  The values stored in \<^verbatim>\<open>out_dict\<close> by \<^verbatim>\<open>output_fn\<close>: the integer placeholders put there by
  \<^verbatim>\<open>dict(zip(range(n), range(n)))\<close> and the \<open>str\<close> payloads that replace them.
\<close>

datatype dval = DInt int | DStr pystr

section \<open>Python built-ins used by the handler\<close>

text \<open>\<^verbatim>\<open>range(n)\<close> for \<open>n = len(xs)\<close>.\<close>

definition py_range :: "nat \<Rightarrow> int list" where
  "py_range n = map int [0..<n]"

text \<open>\<^verbatim>\<open>xs[i]\<close> on a list: negative indices count from the end, anything else out of range raises.\<close>

definition list_getitem :: "'a list \<Rightarrow> int \<Rightarrow> py_error + 'a" where
  "list_getitem xs i =
     (if 0 \<le> i
      then (if i < int (length xs) then Inr (xs ! nat i) else Inl IndexError)
      else (if - int (length xs) \<le> i then Inr (xs ! nat (int (length xs) + i))
            else Inl IndexError))"

text \<open>
  A \<open>dict\<close> is an association list in insertion order with pairwise distinct keys.
  \<^verbatim>\<open>d[k] = v\<close> replaces the value of an existing key where it stands and appends a new key.
\<close>

fun dict_setitem :: "('k \<times> 'v) list \<Rightarrow> 'k \<Rightarrow> 'v \<Rightarrow> ('k \<times> 'v) list" where
  "dict_setitem [] k v = [(k, v)]"
| "dict_setitem ((k', v') # d) k v =
     (if k' = k then (k', v) # d else (k', v') # dict_setitem d k v)"

text \<open>\<^verbatim>\<open>dict(pairs)\<close>: the pairs are inserted one after the other.\<close>

definition py_dict :: "('k \<times> 'v) list \<Rightarrow> ('k \<times> 'v) list" where
  "py_dict pairs = foldl (\<lambda>d (k, v). dict_setitem d k v) [] pairs"

text \<open>
  \<^verbatim>\<open>obj[key]\<close> with a \<open>str\<close> key on a decoded JSON value: a lookup on an object, a
  \<open>TypeError\<close> on everything else (lists and strings want integer indices, the
  remaining values are not subscriptable).
\<close>

fun json_getitem :: "json \<Rightarrow> pystr \<Rightarrow> py_error + json" where
  "json_getitem (JDict kvs) key =
     (case map_of kvs key of None \<Rightarrow> Inl (KeyError key) | Some v \<Rightarrow> Inr v)"
| "json_getitem _ key = Inl TypeError"

text \<open>
  \<^verbatim>\<open>os.path.join(a, b)\<close> of \<^verbatim>\<open>posixpath\<close> for one component: an absolute \<open>b\<close> replaces \<open>a\<close>,
  otherwise \<open>b\<close> is appended, after a separator unless \<open>a\<close> is empty or ends with one.
\<close>

definition sep :: nat where
  "sep = of_char (CHR ''/'')"

definition os_path_join :: "pystr \<Rightarrow> pystr \<Rightarrow> pystr" where
  "os_path_join a b =
     (if b \<noteq> [] \<and> hd b = sep then b
      else if a = [] \<or> last a = sep then a @ b
      else a @ [sep] @ b)"

section \<open>\<^verbatim>\<open>json.dumps\<close> with its default options\<close>

text \<open>\<^verbatim>\<open>int.__repr__\<close>: decimal digits, a minus sign for a negative number.\<close>

fun dec_digits :: "nat \<Rightarrow> pystr" where
  "dec_digits n = (if n < 10 then [48 + n] else dec_digits (n div 10) @ [48 + n mod 10])"

declare dec_digits.simps [simp del]

definition int_repr :: "int \<Rightarrow> pystr" where
  "int_repr i = (if i < 0 then 45 # dec_digits (nat (- i)) else dec_digits (nat i))"

text \<open>
  \<^verbatim>\<open>'\\u{0:04x}'.format(n)\<close> for \<open>n < 0x10000\<close>: backslash, \<open>u\<close>, four lower-case hex digits.
\<close>

definition hex_digit :: "nat \<Rightarrow> nat" where
  "hex_digit d = (if d < 10 then 48 + d else 87 + d)"

definition u_escape :: "nat \<Rightarrow> pystr" where
  "u_escape n =
     [92, 117, hex_digit (n div 4096 mod 16), hex_digit (n div 256 mod 16),
      hex_digit (n div 16 mod 16), hex_digit (n mod 16)]"

text \<open>
  The replacement of one character by \<^verbatim>\<open>py_encode_basestring_ascii\<close>: backslash and the
  double quote are escaped, the printable ASCII characters stay, the control characters
  with a short form take it, every other character becomes \<^verbatim>\<open>\uXXXX\<close>, as a surrogate pair
  beyond the basic plane.
\<close>

definition escape_char :: "nat \<Rightarrow> pystr" where
  "escape_char c =
     (if c = 92 then [92, 92]
      else if c = 34 then [92, 34]
      else if 32 \<le> c \<and> c \<le> 126 then [c]
      else if c = 8 then [92, 98]
      else if c = 12 then [92, 102]
      else if c = 10 then [92, 110]
      else if c = 13 then [92, 114]
      else if c = 9 then [92, 116]
      else if c < 0x10000 then u_escape c
      else (let n = c - 0x10000;
                s1 = 0xd800 OR (drop_bit 10 n AND 0x3ff);
                s2 = 0xdc00 OR (n AND 0x3ff)
            in u_escape s1 @ u_escape s2))"

definition py_encode_basestring_ascii :: "pystr \<Rightarrow> pystr" where
  "py_encode_basestring_ascii s = [34] @ concat (map escape_char s) @ [34]"

fun encode_dval :: "dval \<Rightarrow> pystr" where
  "encode_dval (DInt i) = int_repr i"
| "encode_dval (DStr s) = py_encode_basestring_ascii s"

text \<open>\<^verbatim>\<open>', '.join(parts)\<close>.\<close>

fun join_items :: "pystr list \<Rightarrow> pystr" where
  "join_items [] = []"
| "join_items [x] = x"
| "join_items (x # y # ys) = x @ str_lit '', '' @ join_items (y # ys)"

text \<open>
  A JSON object given by its members, in order: \<^verbatim>\<open>{"key": value, ...}\<close>, and \<^verbatim>\<open>{}\<close> when
  there is none.
\<close>

definition json_object :: "(pystr \<times> dval) list \<Rightarrow> pystr" where
  "json_object members =
     str_lit ''{'' @
     join_items (map (\<lambda>(k, v). py_encode_basestring_ascii k @ str_lit '': '' @ encode_dval v) members) @
     str_lit ''}''"

text \<open>
  \<^verbatim>\<open>json.dumps(d)\<close> for a dict with \<open>int\<close> keys: each key is coerced to the \<open>str\<close> of its
  decimal representation, the members are written in the dict's iteration order.
\<close>

definition json_dumps :: "(int \<times> dval) list \<Rightarrow> pystr" where
  "json_dumps d = json_object (map (\<lambda>(k, v). (int_repr k, v)) d)"

text \<open>
  The number a string of decimal digits denotes: \<^verbatim>\<open>int(s)\<close> on digits. It also tells the keys
  of the response apart.
\<close>

definition dec_value :: "pystr \<Rightarrow> nat" where
  "dec_value ds = foldl (\<lambda>a d. 10 * a + (d - 48)) 0 ds"

section \<open>\<^verbatim>\<open>json.loads\<close>: the scanner of the default decoder\<close>


text \<open>
  \<^verbatim>\<open>WHITESPACE = re.compile(r'[ \t\n\r]*')\<close>: the decoder skips spaces, tabs, line feeds and
  carriage returns, and nothing else.
\<close>

definition is_ws :: "nat \<Rightarrow> bool" where
  "is_ws c = (c = 32 \<or> c = 9 \<or> c = 10 \<or> c = 13)"


text \<open>
  \<^verbatim>\<open>NUMBER_RE\<close>, matched at the start of the input:
  \<^verbatim>\<open>(-?(?:0|[1-9][0-9]*))(\.[0-9]+)?([eE][-+]?[0-9]+)?\<close>. The three groups are returned with
  the rest of the input; an optional group that does not match is empty and consumes nothing.
\<close>

definition is_digit :: "nat \<Rightarrow> bool" where
  "is_digit c = (48 \<le> c \<and> c \<le> 57)"














section \<open>JSON texts\<close>


text \<open>
  What a valid JSON text is, for the claim that a body that is not valid JSON is refused:
  the grammar of RFC 8259 (ECMA-404), production by production. A text is an element; an
  element is a value between whitespace; a value is a literal, a string, a number, an
  object or an array.
\<close>

definition json_ws :: "pystr \<Rightarrow> bool" where
  "json_ws w = list_all is_ws w"

definition json_digits :: "pystr \<Rightarrow> bool" where
  "json_digits ds = (ds \<noteq> [] \<and> list_all is_digit ds)"

definition json_integer :: "pystr \<Rightarrow> bool" where
  "json_integer s =
     (\<exists>minus ds. s = minus @ ds \<and> (minus = [] \<or> minus = [45]) \<and> json_digits ds
        \<and> (length ds = 1 \<or> hd ds \<noteq> 48))"

definition json_fraction :: "pystr \<Rightarrow> bool" where
  "json_fraction s = (s = [] \<or> (\<exists>ds. s = 46 # ds \<and> json_digits ds))"

definition json_exponent :: "pystr \<Rightarrow> bool" where
  "json_exponent s =
     (s = [] \<or> (\<exists>e sign ds. s = e # sign @ ds \<and> (e = 69 \<or> e = 101)
                    \<and> (sign = [] \<or> sign = [43] \<or> sign = [45]) \<and> json_digits ds))"

definition json_number :: "pystr \<Rightarrow> bool" where
  "json_number s =
     (\<exists>i f e. s = i @ f @ e \<and> json_integer i \<and> json_fraction f \<and> json_exponent e)"

definition is_hex :: "nat \<Rightarrow> bool" where
  "is_hex c = (is_digit c \<or> (65 \<le> c \<and> c \<le> 70) \<or> (97 \<le> c \<and> c \<le> 102))"

inductive json_characters :: "pystr \<Rightarrow> bool" where
  no_character: "json_characters []"
| unescaped: "32 \<le> c \<Longrightarrow> c \<le> 0x10FFFF \<Longrightarrow> c \<noteq> 34 \<Longrightarrow> c \<noteq> 92 \<Longrightarrow> json_characters cs \<Longrightarrow>
     json_characters (c # cs)"
| escaped: "e \<in> {34, 92, 47, 98, 102, 110, 114, 116} \<Longrightarrow> json_characters cs \<Longrightarrow>
     json_characters (92 # e # cs)"
| escaped_hex: "is_hex h1 \<Longrightarrow> is_hex h2 \<Longrightarrow> is_hex h3 \<Longrightarrow> is_hex h4 \<Longrightarrow> json_characters cs \<Longrightarrow>
     json_characters (92 # 117 # h1 # h2 # h3 # h4 # cs)"

definition json_string :: "pystr \<Rightarrow> bool" where
  "json_string s = (\<exists>cs. s = 34 # cs @ [34] \<and> json_characters cs)"

inductive json_value :: "pystr \<Rightarrow> bool"
  and json_element :: "pystr \<Rightarrow> bool"
  and json_elements :: "pystr \<Rightarrow> bool"
  and json_member :: "pystr \<Rightarrow> bool"
  and json_members :: "pystr \<Rightarrow> bool" where
  value_null: "json_value (str_lit ''null'')"
| value_true: "json_value (str_lit ''true'')"
| value_false: "json_value (str_lit ''false'')"
| value_string: "json_string s \<Longrightarrow> json_value s"
| value_number: "json_number s \<Longrightarrow> json_value s"
| empty_object: "json_ws w \<Longrightarrow> json_value (123 # w @ [125])"
| object: "json_members ms \<Longrightarrow> json_value (123 # ms @ [125])"
| empty_array: "json_ws w \<Longrightarrow> json_value (91 # w @ [93])"
| array: "json_elements es \<Longrightarrow> json_value (91 # es @ [93])"
| element: "json_ws w1 \<Longrightarrow> json_value v \<Longrightarrow> json_ws w2 \<Longrightarrow> json_element (w1 @ v @ w2)"
| one_element: "json_element e \<Longrightarrow> json_elements e"
| more_elements: "json_element e \<Longrightarrow> json_elements es \<Longrightarrow> json_elements (e @ 44 # es)"
| member: "json_ws w1 \<Longrightarrow> json_string s \<Longrightarrow> json_ws w2 \<Longrightarrow> json_element e \<Longrightarrow>
     json_member (w1 @ s @ w2 @ 58 # e)"
| one_member: "json_member m \<Longrightarrow> json_members m"
| more_members: "json_member m \<Longrightarrow> json_members ms \<Longrightarrow> json_members (m @ 44 # ms)"

definition json_text :: "pystr \<Rightarrow> bool" where
  "json_text s = json_element s"


section \<open>The four hooks\<close>

text \<open>
  The configuration handed to \<^verbatim>\<open>HuggingFaceBgeEmbeddings\<close>. The constructor and
  \<^verbatim>\<open>FAISS.load_local\<close> belong to the library; \<open>model_fn\<close> takes them as parameters, each
  either raising or returning its object.
\<close>

record bge_config =
  model_name :: pystr
  model_kwargs :: "(pystr \<times> pystr) list"
  encode_kwargs :: "(pystr \<times> bool) list"
  query_instruction :: pystr

definition model_fn ::
  "(bge_config \<Rightarrow> py_error + 'e) \<Rightarrow> (pystr \<Rightarrow> 'e \<Rightarrow> py_error + 'h) \<Rightarrow> pystr \<Rightarrow> py_error + 'h" where
  "model_fn bge_embeddings load_local model_dir =
     (let model_name = str_lit ''BAAI/bge-small-en-v1.5'';
          model_kwargs = [(str_lit ''device'', str_lit ''cpu'')];
          encode_kwargs = [(str_lit ''normalize_embeddings'', False)]
      in case bge_embeddings
                \<lparr>model_name = model_name, model_kwargs = model_kwargs,
                 encode_kwargs = encode_kwargs,
                 query_instruction =
                   str_lit ''Represent this sentence for searching relevant passages: ''\<rparr> of
           Inl e \<Rightarrow> Inl e
         | Inr hf \<Rightarrow>
             (let vs_path = os_path_join model_dir (str_lit ''faiss_vector_store'')
              in load_local vs_path hf))"

text \<open>
  \<open>input_fn\<close>: \<^verbatim>\<open>json.loads\<close> is the parameter \<open>loads\<close>; what it raises propagates. The raw
  body (a \<open>str\<close> or \<open>bytes\<close>) is looked at by \<open>loads\<close> only.
\<close>

definition input_fn :: "('b \<Rightarrow> py_error + json) \<Rightarrow> 'b \<Rightarrow> pystr \<Rightarrow> py_error + json" where
  "input_fn loads request_body request_content_type =
     (if request_content_type = str_lit ''application/json'' then loads request_body
      else Inl (ValueError (str_lit ''Content type must be application/json'')))"

text \<open>
  \<open>predict_fn\<close>: \<^verbatim>\<open>vs.similarity_search\<close> is the parameter \<open>similarity_search\<close>. It receives
  the handle and the two argument values, raises or returns the result records, and
  leaves the handle in some state. The arguments are evaluated from left to right before
  the call.
\<close>

type_synonym 'h searcher = "'h \<Rightarrow> json \<Rightarrow> json \<Rightarrow> (py_error + document list) \<times> 'h"

definition predict_fn :: "'h searcher \<Rightarrow> json \<Rightarrow> 'h \<Rightarrow> (py_error + document list) \<times> 'h" where
  "predict_fn similarity_search input_data model =
     (let vs = model
      in case json_getitem input_data (str_lit ''text'') of
           Inl e \<Rightarrow> (Inl e, vs)
         | Inr text \<Rightarrow>
             (case json_getitem input_data (str_lit ''k'') of
                Inl e \<Rightarrow> (Inl e, vs)
              | Inr k \<Rightarrow> similarity_search vs text k))"

text \<open>The loop of \<open>output_fn\<close> over \<^verbatim>\<open>range(len(predictions))\<close>.\<close>

fun output_loop ::
  "document list \<Rightarrow> int list \<Rightarrow> (int \<times> dval) list \<Rightarrow> py_error + (int \<times> dval) list" where
  "output_loop predictions [] out_dict = Inr out_dict"
| "output_loop predictions (ind # inds) out_dict =
     (case list_getitem predictions ind of
        Inl e \<Rightarrow> Inl e
      | Inr p \<Rightarrow> output_loop predictions inds (dict_setitem out_dict ind (DStr (page_content p))))"

definition output_fn :: "document list \<Rightarrow> pystr \<Rightarrow> py_error + pystr" where
  "output_fn predictions content_type =
     (let out_dict = py_dict (zip (py_range (length predictions))
                                  (map DInt (py_range (length predictions))))
      in case output_loop predictions (py_range (length predictions)) out_dict of
           Inl e \<Rightarrow> Inl e
         | Inr out_dict' \<Rightarrow> Inr (json_dumps out_dict'))"

section \<open>The request path\<close>

text \<open>
  Modelled from the spec: the hosting runtime that calls the hooks is not part of the
  source. Section 2 of the specification has the control flow strictly linear per
  request, Decoder, Executor, Encoder, with the Loader's output threaded in; the
  docstrings of the hooks say the same (\<open>predict_fn\<close> on the return value of \<open>input_fn\<close>,
  then \<open>output_fn\<close>). Section 7 has every error surface directly, so an exception of any
  hook ends the request.
\<close>

definition transform_fn ::
  "('b \<Rightarrow> py_error + json) \<Rightarrow> 'h searcher \<Rightarrow> 'h \<Rightarrow> 'b \<Rightarrow> pystr \<Rightarrow> pystr \<Rightarrow>
   (py_error + pystr) \<times> 'h" where
  "transform_fn loads similarity_search model request_body content_type accept =
     (case input_fn loads request_body content_type of
        Inl e \<Rightarrow> (Inl e, model)
      | Inr input_data \<Rightarrow>
          (case predict_fn similarity_search input_data model of
             (Inl e, model') \<Rightarrow> (Inl e, model')
           | (Inr predictions, model') \<Rightarrow> (output_fn predictions accept, model')))"

section \<open>Dictionaries and the loop of \<open>output_fn\<close>\<close>

lemma dict_setitem_fresh: "k \<notin> fst ` set d \<Longrightarrow> dict_setitem d k v = d @ [(k, v)]"
  by (induction d) auto

lemma py_dict_aux:
  "distinct (map fst ps) \<Longrightarrow> fst ` set d \<inter> fst ` set ps = {} \<Longrightarrow>
   foldl (\<lambda>d (k, v). dict_setitem d k v) d ps = d @ ps"
proof (induction ps arbitrary: d)
  case Nil
  then show ?case by simp
next
  case (Cons p ps)
  obtain k v where p: "p = (k, v)" by (cases p)
  from Cons.prems have fresh: "k \<notin> fst ` set d" by (auto simp: p)
  have "fst ` set (d @ [(k, v)]) \<inter> fst ` set ps = {}"
    using Cons.prems by (auto simp: p)
  moreover have "distinct (map fst ps)" using Cons.prems by simp
  ultimately have "foldl (\<lambda>d (k, v). dict_setitem d k v) (d @ [(k, v)]) ps = (d @ [(k, v)]) @ ps"
    by (rule Cons.IH[rotated])
  then show ?case by (simp add: p dict_setitem_fresh[OF fresh])
qed

lemma py_dict_distinct: "distinct (map fst ps) \<Longrightarrow> py_dict ps = ps"
  unfolding py_dict_def using py_dict_aux[of ps "[]"] by simp

lemma dict_setitem_present:
  "distinct xs \<Longrightarrow> j \<in> set xs \<Longrightarrow> inj key \<Longrightarrow>
   dict_setitem (map (\<lambda>i. (key i, g i)) xs) (key j) v =
   map (\<lambda>i. (key i, if i = j then v else g i)) xs"
proof (induction xs)
  case Nil
  then show ?case by simp
next
  case (Cons x xs)
  show ?case
  proof (cases "x = j")
    case True
    then have "j \<notin> set xs" using Cons.prems by simp
    then have "map (\<lambda>i. (key i, if i = j then v else g i)) xs = map (\<lambda>i. (key i, g i)) xs"
      by (intro map_cong) auto
    then show ?thesis using True by simp
  next
    case False
    then have "key x \<noteq> key j" using Cons.prems(3) by (auto dest: injD)
    moreover have "j \<in> set xs" using False Cons.prems by simp
    ultimately show ?thesis using Cons False by simp
  qed
qed

lemma list_getitem_in_range: "i < length xs \<Longrightarrow> list_getitem xs (int i) = Inr (xs ! i)"
  by (simp add: list_getitem_def)

lemma output_loop_stage:
  "j \<le> length ps \<Longrightarrow>
   output_loop ps (map int [j..<length ps])
     (map (\<lambda>i. (int i, if i < j then DStr (page_content (ps ! i)) else DInt (int i))) [0..<length ps]) =
   Inr (map (\<lambda>i. (int i, DStr (page_content (ps ! i)))) [0..<length ps])"
proof (induction "length ps - j" arbitrary: j)
  case 0
  then have "j = length ps" by simp
  then show ?case by simp
next
  case (Suc d)
  then have lt: "j < length ps" and d: "d = length ps - Suc j" by simp_all
  have inj: "inj (int :: nat \<Rightarrow> int)" by (simp add: inj_on_def)
  have step:
    "dict_setitem
       (map (\<lambda>i. (int i, if i < j then DStr (page_content (ps ! i)) else DInt (int i))) [0..<length ps])
       (int j) (DStr (page_content (ps ! j))) =
     map (\<lambda>i. (int i, if i < Suc j then DStr (page_content (ps ! i)) else DInt (int i))) [0..<length ps]"
    using lt by (subst dict_setitem_present[OF _ _ inj]) (auto simp: less_Suc_eq)
  have "output_loop ps (map int [Suc j..<length ps])
     (map (\<lambda>i. (int i, if i < Suc j then DStr (page_content (ps ! i)) else DInt (int i))) [0..<length ps]) =
   Inr (map (\<lambda>i. (int i, DStr (page_content (ps ! i)))) [0..<length ps])"
    using Suc.hyps(1)[OF d] lt by simp
  then show ?case
    using lt by (simp add: upt_conv_Cons list_getitem_in_range step del: upt_Suc)
qed

lemma initial_out_dict:
  "py_dict (zip (py_range n) (map DInt (py_range n))) = map (\<lambda>i. (int i, DInt (int i))) [0..<n]"
proof -
  have z: "zip (py_range n) (map DInt (py_range n)) = map (\<lambda>i. (int i, DInt (int i))) [0..<n]"
    by (simp add: py_range_def zip_map_map zip_same_conv_map)
  have "distinct (map fst (map (\<lambda>i. (int i, DInt (int i))) [0..<n]))"
    by (simp add: comp_def distinct_map inj_on_def)
  then show ?thesis by (simp only: z py_dict_distinct)
qed

lemma output_fn_eq:
  "output_fn ps ct = Inr (json_dumps (map (\<lambda>i. (int i, DStr (page_content (ps ! i)))) [0..<length ps]))"
proof -
  have "output_loop ps (py_range (length ps)) (map (\<lambda>i. (int i, DInt (int i))) [0..<length ps]) =
        Inr (map (\<lambda>i. (int i, DStr (page_content (ps ! i)))) [0..<length ps])"
    using output_loop_stage[of 0 ps] by (simp add: py_range_def)
  then show ?thesis
    unfolding output_fn_def initial_out_dict by simp
qed

section \<open>Decimal keys are pairwise different\<close>

lemma dec_value_digits: "dec_value (dec_digits n) = n"
proof (induction n rule: dec_digits.induct)
  case (1 n)
  show ?case
  proof (cases "n < 10")
    case True
    then show ?thesis by (subst dec_digits.simps) (simp add: dec_value_def)
  next
    case False
    with 1 have "dec_value (dec_digits (n div 10)) = n div 10" by simp
    with False show ?thesis
      by (subst dec_digits.simps) (simp add: dec_value_def)
  qed
qed

lemma inj_dec_digits: "inj dec_digits"
  by (rule inj_on_inverseI[where g = dec_value]) (rule dec_value_digits)

lemma int_repr_nat: "int_repr (int i) = dec_digits i"
  by (simp add: int_repr_def)

lemma distinct_keys: "distinct (map (\<lambda>i. int_repr (int i)) [0..<n])"
  using inj_dec_digits by (simp add: int_repr_nat distinct_map inj_on_def)

section \<open>The body \<^verbatim>\<open>NaN\<close>\<close>





lemma null_is_json: "json_text (str_lit ''null'')"
  unfolding json_text_def
  using element[of "[]" "str_lit ''null''" "[]"] value_null by (simp add: json_ws_def)


lemma json_characters_printable:
  "list_all (\<lambda>c. 32 \<le> c \<and> c \<le> 126 \<and> c \<noteq> 34 \<and> c \<noteq> 92) cs \<Longrightarrow> json_characters cs"
  by (induction cs) (auto intro: json_characters.intros)

lemma request_body_is_json: "json_text (str_lit ''{\"text\": \"q\", \"k\": 2}'')"
proof -
  have s_text: "json_string (str_lit ''\"text\"'')" and q: "json_string (str_lit ''\"q\"'')"
    and k: "json_string (str_lit ''\"k\"'')"
    unfolding json_string_def
    by (rule exI[of _ "str_lit ''text''"], simp add: str_lit_def json_characters_printable,
        rule exI[of _ "str_lit ''q''"], simp add: str_lit_def json_characters_printable,
        rule exI[of _ "str_lit ''k''"], simp add: str_lit_def json_characters_printable)
  have two: "json_number (str_lit ''2'')"
    unfolding json_number_def json_integer_def json_fraction_def json_exponent_def
    by (rule exI[of _ "str_lit ''2''"], rule exI[of _ "[]"], rule exI[of _ "[]"])
       (auto simp: str_lit_def json_digits_def is_digit_def intro: exI[of _ "[]"])
  have sp: "json_ws (str_lit '' '')" and e: "json_ws []"
    by (simp_all add: json_ws_def is_ws_def str_lit_def)
  have m1: "json_member (str_lit ''\"text\": \"q\"'')"
    using member[OF e s_text e element[OF sp value_string[OF q] e]] by (simp add: str_lit_def)
  have m2: "json_member (str_lit '' \"k\": 2'')"
    using member[OF sp k e element[OF sp value_number[OF two] e]] by (simp add: str_lit_def)
  have "json_members (str_lit ''\"text\": \"q\", \"k\": 2'')"
    using more_members[OF m1 one_member[OF m2]] by (simp add: str_lit_def)
  from object[OF this] have "json_value (str_lit ''{\"text\": \"q\", \"k\": 2}'')"
    by (simp add: str_lit_def)
  from element[OF e this e] show ?thesis
    by (simp add: json_text_def)
qed

section \<open>The claims\<close>

text \<open>
  Claim C1. For every list of \<open>n\<close> result records \<open>output_fn\<close> returns the JSON object whose
  members are, in rank order, the key \<open>"i"\<close> (the decimal representation of the position
  \<open>i\<close>, for \<open>i\<close> from \<open>0\<close> to \<open>n - 1\<close>) with the \<open>page_content\<close> of the \<open>i\<close>-th record as its
  value. The \<open>n\<close> keys are pairwise different. Two lists of records with the same page
  contents give the same output whatever their other fields are.
\<close>

theorem output_fn_rank_keys:
  "output_fn predictions content_type =
     Inr (json_object
            (map (\<lambda>i. (int_repr (int i), DStr (page_content (predictions ! i))))
               [0..<length predictions]))
   \<and> distinct (map (\<lambda>i. int_repr (int i)) [0..<length predictions])
   \<and> (map page_content predictions' = map page_content predictions \<longrightarrow>
        output_fn predictions' content_type' = output_fn predictions content_type)"
proof (intro conjI impI)
  show "output_fn predictions content_type =
     Inr (json_object
            (map (\<lambda>i. (int_repr (int i), DStr (page_content (predictions ! i))))
               [0..<length predictions]))"
    by (simp add: output_fn_eq json_dumps_def comp_def)
  show "distinct (map (\<lambda>i. int_repr (int i)) [0..<length predictions])"
    by (rule distinct_keys)
  assume eq: "map page_content predictions' = map page_content predictions"
  then have len: "length predictions' = length predictions"
    by (rule map_eq_imp_length_eq)
  have "page_content (predictions' ! i) = page_content (predictions ! i)"
    if "i < length predictions" for i
    using that len nth_map[of i predictions' page_content] nth_map[of i predictions page_content] eq
    by simp
  then have mapeq:
    "map (\<lambda>i. (int i, DStr (page_content (predictions' ! i)))) [0..<length predictions] =
     map (\<lambda>i. (int i, DStr (page_content (predictions ! i)))) [0..<length predictions]"
    by simp
  show "output_fn predictions' content_type' = output_fn predictions content_type"
    by (simp only: output_fn_eq len mapeq)
qed

theorem output_fn_rank_keys_witness:
  "output_fn [\<lparr>page_content = str_lit ''alpha'', metadata = []\<rparr>,
              \<lparr>page_content = str_lit ''beta'', metadata = [(str_lit ''source'', JInt 7)]\<rparr>]
     (str_lit ''application/json'') =
   Inr (str_lit ''{\"0\": \"alpha\", \"1\": \"beta\"}'')
   \<and> output_fn [\<lparr>page_content = str_lit ''alpha'', metadata = [(str_lit ''page'', JNull)]\<rparr>,
                \<lparr>page_content = str_lit ''beta'', metadata = []\<rparr>]
       (str_lit ''text/plain'') =
     Inr (str_lit ''{\"0\": \"alpha\", \"1\": \"beta\"}'')"
  using output_fn_rank_keys
    [of "[\<lparr>page_content = str_lit ''alpha'', metadata = []\<rparr>,
          \<lparr>page_content = str_lit ''beta'', metadata = [(str_lit ''source'', JInt 7)]\<rparr>]"
        "str_lit ''application/json''"
        "[\<lparr>page_content = str_lit ''alpha'', metadata = [(str_lit ''page'', JNull)]\<rparr>,
          \<lparr>page_content = str_lit ''beta'', metadata = []\<rparr>]"
        "str_lit ''text/plain''"]
  by (simp add: json_object_def py_encode_basestring_ascii_def escape_char_def int_repr_def
      dec_digits.simps str_lit_def upt_conv_Cons)

text \<open>
  Claim C2. With a declared content type other than \<^verbatim>\<open>application/json\<close> \<open>input_fn\<close> raises
  the \<open>ValueError\<close> of the source for every body, and the request ends with that error and
  the handle as it was, whatever the search delegate would do: no search is made. With
  \<^verbatim>\<open>application/json\<close> the result of \<open>input_fn\<close> is that of parsing the body.
\<close>

theorem input_fn_content_type:
  "(request_content_type \<noteq> str_lit ''application/json'' \<longrightarrow>
      input_fn loads request_body request_content_type =
        Inl (ValueError (str_lit ''Content type must be application/json''))
      \<and> transform_fn loads similarity_search model request_body request_content_type accept =
        (Inl (ValueError (str_lit ''Content type must be application/json'')), model))
   \<and> input_fn loads request_body (str_lit ''application/json'') = loads request_body"
  by (simp add: input_fn_def transform_fn_def)

theorem input_fn_content_type_witness:
  "str_lit ''text/plain'' \<noteq> str_lit ''application/json''
   \<and> input_fn (\<lambda>b. Inr (JStr b)) (str_lit ''{}'') (str_lit ''text/plain'') =
       Inl (ValueError (str_lit ''Content type must be application/json''))
   \<and> transform_fn (\<lambda>b. Inr (JStr b)) (\<lambda>calls text k. (Inr [], Suc calls)) (0::nat)
         (str_lit ''{}'') (str_lit ''text/plain'') (str_lit ''application/json'') =
       (Inl (ValueError (str_lit ''Content type must be application/json'')), 0)"
proof -
  have ne: "str_lit ''text/plain'' \<noteq> str_lit ''application/json''"
    by (simp add: str_lit_def)
  show ?thesis
    using ne input_fn_content_type
      [of "str_lit ''text/plain''" "\<lambda>b. Inr (JStr b)" "str_lit ''{}''"
          "\<lambda>calls text k. (Inr [], Suc calls)" "0::nat" "str_lit ''application/json''"]
    by blast
qed






text \<open>
  Claim C5. For a decoded query in which both \<open>text\<close> and \<open>k\<close> can be read, \<open>predict_fn\<close>
  returns what the similarity search of the handle returns on those two values: the same
  records in the same order, for every \<open>k\<close>.
\<close>

theorem predict_fn_delegates:
  "json_getitem input_data (str_lit ''text'') = Inr text \<Longrightarrow>
   json_getitem input_data (str_lit ''k'') = Inr k \<Longrightarrow>
   predict_fn similarity_search input_data model = similarity_search model text k"
  by (simp add: predict_fn_def)

theorem predict_fn_delegates_witness:
  "predict_fn
     (\<lambda>corpus text k. (case k of JInt n \<Rightarrow> Inr (take (nat n) corpus) | _ \<Rightarrow> Inl TypeError, corpus))
     (JDict [(str_lit ''text'', JStr (str_lit ''example query'')), (str_lit ''k'', JInt 5)])
     [\<lparr>page_content = str_lit ''alpha'', metadata = []\<rparr>,
      \<lparr>page_content = str_lit ''beta'', metadata = []\<rparr>] =
   (Inr [\<lparr>page_content = str_lit ''alpha'', metadata = []\<rparr>,
         \<lparr>page_content = str_lit ''beta'', metadata = []\<rparr>],
    [\<lparr>page_content = str_lit ''alpha'', metadata = []\<rparr>,
     \<lparr>page_content = str_lit ''beta'', metadata = []\<rparr>])"
proof -
  let ?q = "JDict [(str_lit ''text'', JStr (str_lit ''example query'')), (str_lit ''k'', JInt 5)]"
  have t: "json_getitem ?q (str_lit ''text'') = Inr (JStr (str_lit ''example query''))"
    by (simp add: str_lit_def)
  have k: "json_getitem ?q (str_lit ''k'') = Inr (JInt 5)"
    by (simp add: str_lit_def)
  show ?thesis
    using predict_fn_delegates
      [OF t k,
       of "\<lambda>corpus text k. (case k of JInt n \<Rightarrow> Inr (take (nat n) corpus) | _ \<Rightarrow> Inl TypeError, corpus)"
          "[\<lparr>page_content = str_lit ''alpha'', metadata = []\<rparr>,
            \<lparr>page_content = str_lit ''beta'', metadata = []\<rparr>]"]
    by simp
qed

text \<open>
  Claim C6. For every \<open>model_dir\<close>, \<open>model_fn\<close> constructs the embedding function with model
  name \<^verbatim>\<open>BAAI/bge-small-en-v1.5\<close>, device \<^verbatim>\<open>cpu\<close>, \<^verbatim>\<open>normalize_embeddings\<close> false and the fixed
  query instruction, and loads the index from \<^verbatim>\<open>faiss_vector_store\<close> joined beneath
  \<open>model_dir\<close>, with that embedding function.
\<close>

theorem model_fn_configuration:
  "model_fn bge_embeddings load_local model_dir =
     (case bge_embeddings
             \<lparr>model_name = str_lit ''BAAI/bge-small-en-v1.5'',
              model_kwargs = [(str_lit ''device'', str_lit ''cpu'')],
              encode_kwargs = [(str_lit ''normalize_embeddings'', False)],
              query_instruction =
                str_lit ''Represent this sentence for searching relevant passages: ''\<rparr> of
        Inl e \<Rightarrow> Inl e
      | Inr hf \<Rightarrow>
          load_local
            (if model_dir = [] \<or> last model_dir = of_char (CHR ''/'')
             then model_dir @ str_lit ''faiss_vector_store''
             else model_dir @ str_lit ''/'' @ str_lit ''faiss_vector_store'')
            hf)"
  by (simp add: model_fn_def os_path_join_def sep_def str_lit_def split: sum.splits)

text \<open>
  Claim C7. \<open>output_fn\<close> on the empty result sequence returns the string \<^verbatim>\<open>{}\<close>.
\<close>

theorem output_fn_empty: "output_fn [] content_type = Inr (str_lit ''{}'')"
  by (simp add: output_fn_def py_range_def py_dict_def json_dumps_def json_object_def str_lit_def)

text \<open>
  Claim C9. The result of \<open>output_fn\<close> is the same for any two values of \<open>content_type\<close>, and
  it is never an error.
\<close>

theorem output_fn_ignores_content_type:
  "output_fn predictions content_type = output_fn predictions content_type'
   \<and> (\<forall>e. output_fn predictions content_type \<noteq> Inl e)"
  by (simp add: output_fn_eq)

text \<open>
  Claim C10. \<open>output_fn\<close> returns a string for every list of result records: its loop ends
  with a dictionary that has the keys of \<^verbatim>\<open>range(len(predictions))\<close> and no other, and every
  index of the loop is within the bounds of the list and is a key of the dictionary built
  before the loop.
\<close>

theorem output_fn_total:
  "(\<exists>out_dict. output_loop predictions (py_range (length predictions))
                  (py_dict (zip (py_range (length predictions))
                                (map DInt (py_range (length predictions))))) = Inr out_dict
               \<and> map fst out_dict = py_range (length predictions)
               \<and> output_fn predictions content_type = Inr (json_dumps out_dict))
   \<and> (\<forall>ind \<in> set (py_range (length predictions)).
         0 \<le> ind \<and> ind < int (length predictions)
         \<and> list_getitem predictions ind = Inr (predictions ! nat ind)
         \<and> ind \<in> fst ` set (py_dict (zip (py_range (length predictions))
                                         (map DInt (py_range (length predictions))))))"
proof (intro conjI ballI)
  let ?n = "length predictions"
  let ?final = "map (\<lambda>i. (int i, DStr (page_content (predictions ! i)))) [0..<?n]"
  have loop: "output_loop predictions (py_range ?n)
                (py_dict (zip (py_range ?n) (map DInt (py_range ?n)))) = Inr ?final"
    unfolding initial_out_dict using output_loop_stage[of 0 predictions] by (simp add: py_range_def)
  moreover have "map fst ?final = py_range ?n"
    by (simp add: py_range_def comp_def)
  moreover have "output_fn predictions content_type = Inr (json_dumps ?final)"
    by (rule output_fn_eq)
  ultimately show "\<exists>out_dict. output_loop predictions (py_range ?n)
                  (py_dict (zip (py_range ?n) (map DInt (py_range ?n)))) = Inr out_dict
               \<and> map fst out_dict = py_range ?n
               \<and> output_fn predictions content_type = Inr (json_dumps out_dict)"
    by blast
next
  fix ind
  assume "ind \<in> set (py_range (length predictions))"
  then obtain i where i: "ind = int i" "i < length predictions"
    by (auto simp: py_range_def)
  show "0 \<le> ind" using i by simp
  show "ind < int (length predictions)" using i by simp
  show "list_getitem predictions ind = Inr (predictions ! nat ind)"
    using i by (simp add: list_getitem_in_range)
  show "ind \<in> fst ` set (py_dict (zip (py_range (length predictions))
                                     (map DInt (py_range (length predictions)))))"
    using i by (simp add: initial_out_dict image_image)
qed

theorem output_fn_total_witness:
  "(\<exists>s. output_fn [\<lparr>page_content = str_lit ''alpha'', metadata = []\<rparr>,
                    \<lparr>page_content = str_lit ''beta'', metadata = []\<rparr>] [] = Inr s)
   \<and> (1::int) \<in> set (py_range 2)
   \<and> list_getitem [\<lparr>page_content = str_lit ''alpha'', metadata = []\<rparr>,
                    \<lparr>page_content = str_lit ''beta'', metadata = []\<rparr>] 1 =
       Inr \<lparr>page_content = str_lit ''beta'', metadata = []\<rparr>"
proof -
  let ?P = "[\<lparr>page_content = str_lit ''alpha'', metadata = []\<rparr>,
             \<lparr>page_content = str_lit ''beta'', metadata = []\<rparr>]"
  have m: "(1::int) \<in> set (py_range (length ?P))"
    by (simp add: py_range_def upt_conv_Cons)
  note total = output_fn_total [of ?P "[]"]
  from total have "\<exists>s. output_fn ?P [] = Inr s"
    by blast
  moreover from total [THEN conjunct2, THEN bspec, OF m]
  have "list_getitem ?P 1 = Inr (?P ! nat 1)"
    by blast
  moreover have "(1::int) \<in> set (py_range 2)"
    by (simp add: py_range_def upt_conv_Cons)
  ultimately show ?thesis
    by simp
qed

end
